theory Spec2Isabelle
  imports Complex_Main "HOL-Library.Word"
begin

section \<open>The NLP formulation layer of HiOp (hiopNlpFormulation.hpp)\<close>

text \<open>
  This theory embeds the inline member functions of the three classes of
  \<^verbatim>\<open>src/Optimization/hiopNlpFormulation.hpp\<close>: the base class
  \<^verbatim>\<open>hiopNlpFormulation\<close>, the dense specialization
  \<^verbatim>\<open>hiopNlpDenseConstraints\<close> and the mixed sparse-dense specialization
  \<^verbatim>\<open>hiopNlpMDS\<close>.

  Conventions of the embedding.
  \<^item> \<^verbatim>\<open>long long\<close> is a 64-bit word and \<^verbatim>\<open>int\<close> a 32-bit word; the cast
    \<^verbatim>\<open>(int)n_vars\<close> keeps the low 32 bits.
  \<^item> \<^verbatim>\<open>double\<close> values are only carried from one place to another by this header
    (no arithmetic on them), so they are modelled by \<open>real\<close>.
  \<^item> A C array reached through a pointer is a list; a pointer that may be \<^verbatim>\<open>NULL\<close>
    is an \<open>option\<close>.
  \<^item> \<^verbatim>\<open>assert\<close> is modelled as compiled in (no \<^verbatim>\<open>NDEBUG\<close>): a failed assertion
    ends the call with the error \<open>AssertionFailed\<close>. A \<^verbatim>\<open>dynamic_cast\<close> to a
    reference type that fails ends the call with \<open>BadCast\<close>.
  \<^item> The user's interface object is a state of type \<open>'u\<close> and its virtual methods
    are functions on that state; every call that leaves the formulation layer (a
    user callback, a message to the logger) is also appended to a trace of events.
\<close>

subsection \<open>Scalars, errors, assertions\<close>

type_synonym long_long = "64 word"
type_synonym c_int = "32 word"
type_synonym double = real

datatype error = AssertionFailed | BadCast | OutOfBounds

text \<open>\<^verbatim>\<open>assert(b); rest\<close>\<close>

definition assert_then :: "bool \<Rightarrow> (error + 'a) \<Rightarrow> error + 'a" where
  "assert_then b rest = (if b then rest else Inl AssertionFailed)"

subsection \<open>Vectors\<close>

text \<open>
  \<^verbatim>\<open>hiopVectorPar\<close> (declared in hiopVector.hpp) is used here through
  \<^verbatim>\<open>get_size()\<close>, \<^verbatim>\<open>get_local_size()\<close> and \<^verbatim>\<open>local_data()\<close> /
  \<^verbatim>\<open>local_data_const()\<close>. An abstract \<^verbatim>\<open>hiopVector\<close> is either a
  \<^verbatim>\<open>hiopVectorPar\<close> or some other implementation, of which only the size is
  visible.
\<close>

record hiopVectorPar =
  vec_size :: long_long
  vec_local_size :: long_long
  vec_local_data :: "double list"

datatype hiopVector = VectorPar hiopVectorPar | VectorOther long_long

fun get_size :: "hiopVector \<Rightarrow> long_long" where
  "get_size (VectorPar v) = vec_size v"
| "get_size (VectorOther n) = n"

subsection \<open>The base class hiopNlpFormulation\<close>

text \<open>
  Modelled from the spec: the enumeration \<^verbatim>\<open>hiopInterfaceBase::NonlinearityType\<close>
  is declared in hiopInterface.hpp, which is not part of the sources at hand; the
  specification names the tags linear, nonlinear and convex.
\<close>

datatype NonlinearityType = hiopLinear | hiopNonlinear | hiopConvex

text \<open>
  The data members of the class. The type \<open>'t\<close> is the state of the member
  \<^verbatim>\<open>nlp_transformations\<close> (class \<^verbatim>\<open>hiopNlpTransformations\<close>, declared in
  hiopNlpTransforms.hpp).
\<close>

record 't hiopNlpFormulation =
  n_vars :: long_long
  n_cons :: long_long
  n_cons_eq :: long_long
  n_cons_ineq :: long_long
  n_bnds_low :: long_long
  n_bnds_low_local :: long_long
  n_bnds_upp :: long_long
  n_bnds_upp_local :: long_long
  n_ineq_low :: long_long
  n_ineq_upp :: long_long
  n_bnds_lu :: long_long
  n_ineq_lu :: long_long
  xl :: hiopVectorPar
  xu :: hiopVectorPar
  ixu :: hiopVectorPar
  ixl :: hiopVectorPar
  vars_type :: "NonlinearityType list"
  c_rhs :: hiopVectorPar
  cons_eq_type :: "NonlinearityType list"
  dl :: hiopVectorPar
  du :: hiopVectorPar
  idl :: hiopVectorPar
  idu :: hiopVectorPar
  cons_ineq_type :: "NonlinearityType list"
  cons_eq_mapping :: "long_long list"
  cons_ineq_mapping :: "long_long list"
  strFixedVars :: string
  dFixedVarsTol :: double
  nlp_transformations :: 't

text \<open>
  The const accessors of lines 168-180. The accessors \<^verbatim>\<open>n()\<close> and \<^verbatim>\<open>m()\<close> are
  named \<open>nlp_n\<close> and \<open>nlp_m\<close>, to leave the letters free for variables.
\<close>

definition nlp_n :: "'t hiopNlpFormulation \<Rightarrow> long_long" where
  "nlp_n nlp = n_vars nlp"

definition nlp_m :: "'t hiopNlpFormulation \<Rightarrow> long_long" where
  "nlp_m nlp = n_cons nlp"

definition m_eq :: "'t hiopNlpFormulation \<Rightarrow> long_long" where
  "m_eq nlp = n_cons_eq nlp"

definition m_ineq :: "'t hiopNlpFormulation \<Rightarrow> long_long" where
  "m_ineq nlp = n_cons_ineq nlp"

definition n_low :: "'t hiopNlpFormulation \<Rightarrow> long_long" where
  "n_low nlp = n_bnds_low nlp"

definition n_upp :: "'t hiopNlpFormulation \<Rightarrow> long_long" where
  "n_upp nlp = n_bnds_upp nlp"

definition m_ineq_low :: "'t hiopNlpFormulation \<Rightarrow> long_long" where
  "m_ineq_low nlp = n_ineq_low nlp"

definition m_ineq_upp :: "'t hiopNlpFormulation \<Rightarrow> long_long" where
  "m_ineq_upp nlp = n_ineq_upp nlp"

definition n_complem :: "'t hiopNlpFormulation \<Rightarrow> long_long" where
  "n_complem nlp = m_ineq_low nlp + m_ineq_upp nlp + n_low nlp + n_upp nlp"

definition n_local :: "'t hiopNlpFormulation \<Rightarrow> long_long" where
  "n_local nlp = vec_local_size (xl nlp)"

definition n_low_local :: "'t hiopNlpFormulation \<Rightarrow> long_long" where
  "n_low_local nlp = n_bnds_low_local nlp"

definition n_upp_local :: "'t hiopNlpFormulation \<Rightarrow> long_long" where
  "n_upp_local nlp = n_bnds_upp_local nlp"

subsection \<open>Matrices\<close>

text \<open>
  The matrix classes are declared in hiopMatrix.hpp and hiopMatrixMDS.hpp. A matrix
  record holds what this header reads through the accessors \<^verbatim>\<open>n_sp()\<close>,
  \<^verbatim>\<open>n_de()\<close>, \<^verbatim>\<open>sp_nnz()\<close>, \<^verbatim>\<open>sp_irow()\<close>, \<^verbatim>\<open>sp_jcol()\<close>, \<^verbatim>\<open>sp_M()\<close>,
  \<^verbatim>\<open>de_local_data()\<close> and \<^verbatim>\<open>local_data()\<close>. An abstract \<^verbatim>\<open>hiopMatrix\<close> handle
  carries its dynamic type as the constructor, and a \<^verbatim>\<open>dynamic_cast\<close> to a pointer
  type is a match on it (a mismatch is the null pointer).
\<close>

record hiopMatrixDense =
  local_data :: "double list list"

record hiopMatrixMDS =
  n_sp :: c_int
  n_de :: c_int
  sp_nnz :: c_int
  sp_irow :: "c_int list"
  sp_jcol :: "c_int list"
  sp_M :: "double list"
  de_local_data :: "double list list"

record hiopMatrixSymBlockDiagMDS =
  hs_n_sp :: c_int
  hs_n_de :: c_int
  hs_sp_nnz :: c_int
  hs_sp_irow :: "c_int list"
  hs_sp_jcol :: "c_int list"
  hs_sp_M :: "double list"
  hs_de_local_data :: "double list list"

datatype hiopMatrix =
  MatrixDense hiopMatrixDense
| MatrixMDS hiopMatrixMDS
| MatrixSymBlockDiagMDS hiopMatrixSymBlockDiagMDS

fun is_dense :: "hiopMatrix \<Rightarrow> bool" where
  "is_dense (MatrixDense D) = True"
| "is_dense (MatrixMDS M) = False"
| "is_dense (MatrixSymBlockDiagMDS H) = False"

subsection \<open>The user's interface and the trace of outgoing calls\<close>

text \<open>
  The interface classes are declared in hiopInterface.hpp. Each record below lists
  the actual arguments of one call as this header writes them, in order. A callback
  is a function of these arguments and of the user's state. Buffers handed over as
  non-const pointers come back in the callback's result as the callback left them.
\<close>

record jac_cons_args =
  jc_n :: long_long
  jc_m :: long_long
  jc_num_cons :: long_long
  jc_idx_cons :: "long_long list"
  jc_x :: "double list"
  jc_new_x :: bool
  jc_nsparse :: c_int
  jc_ndense :: c_int
  jc_nnzJacS :: c_int
  jc_iJacS :: "c_int list"
  jc_jJacS :: "c_int list"
  jc_MJacS :: "double list"
  jc_JacD :: "double list list"

record jac_cons_out =
  jo_ret :: bool
  jo_iJacS :: "c_int list"
  jo_jJacS :: "c_int list"
  jo_MJacS :: "double list"
  jo_JacD :: "double list list"

record hess_lagr_args =
  hl_n :: long_long
  hl_m :: long_long
  hl_x :: "double list"
  hl_new_x :: bool
  hl_obj_factor :: double
  hl_lambda :: "double list"
  hl_new_lambda :: bool
  hl_nsparse :: c_int
  hl_ndense :: c_int
  hl_nnzHSS :: c_int
  hl_iHSS :: "c_int list"
  hl_jHSS :: "c_int list"
  hl_MHSS :: "double list"
  hl_HDD :: "double list list"
  hl_nnzHSD :: c_int
  hl_iHSD :: "c_int list option"
  hl_jHSD :: "c_int list option"
  hl_MHSD :: "double list option"

text \<open>
  The two counts \<^verbatim>\<open>nnzHSS\<close> and \<^verbatim>\<open>nnzHSD\<close> are local variables of the caller that
  it reads again after the call, so the callback's result reports their values
  after the call.
\<close>

record hess_lagr_out =
  ho_ret :: bool
  ho_nnzHSS :: c_int
  ho_iHSS :: "c_int list"
  ho_jHSS :: "c_int list"
  ho_MHSS :: "double list"
  ho_HDD :: "double list list"
  ho_nnzHSD :: c_int

record 's solution_args =
  sol_status :: 's
  sol_n :: c_int
  sol_x :: "double list"
  sol_z_L :: "double list"
  sol_z_U :: "double list"
  sol_m :: c_int
  sol_g :: "double list option"
  sol_lambda :: "double list option"
  sol_obj_value :: double

record iterate_args =
  it_iter :: c_int
  it_obj_value :: double
  it_n :: c_int
  it_x :: "double list"
  it_z_L :: "double list"
  it_z_U :: "double list"
  it_m :: c_int
  it_g :: "double list option"
  it_lambda :: "double list option"
  it_inf_pr :: double
  it_inf_du :: double
  it_mu :: double
  it_alpha_du :: double
  it_alpha_pr :: double
  it_ls_trials :: c_int

text \<open>\<^verbatim>\<open>hiopInterfaceBase\<close>: the reporting hooks; \<open>'s\<close> is \<^verbatim>\<open>hiopSolveStatus\<close>.\<close>

record ('u, 's) hiopInterfaceBase =
  solution_callback :: "'s solution_args \<Rightarrow> 'u \<Rightarrow> 'u"
  iterate_callback :: "iterate_args \<Rightarrow> 'u \<Rightarrow> bool \<times> 'u"

text \<open>\<^verbatim>\<open>hiopInterfaceMDS\<close>: the combined sparse and dense derivative callbacks.\<close>

record 'u hiopInterfaceMDS =
  eval_Jac_cons :: "jac_cons_args \<Rightarrow> 'u \<Rightarrow> jac_cons_out \<times> 'u"
  eval_Hess_Lagr :: "hess_lagr_args \<Rightarrow> 'u \<Rightarrow> hess_lagr_out \<times> 'u"

text \<open>The verbosity level used by this header (hiopLogger.hpp declares the others).\<close>

datatype hiopOutVerbosity = hovError

datatype 's event =
  LogPrintf hiopOutVerbosity string
| EvalJacCons jac_cons_args
| EvalHessLagr hess_lagr_args
| SolutionCallback "'s solution_args"
| IterateCallback iterate_args

record ('u, 's) env =
  user :: 'u
  trace :: "'s event list"

subsection \<open>hiopNlpMDS: the derivative evaluations (lines 314-362)\<close>

text \<open>
  Each evaluation returns its outcome (an error, or the \<^verbatim>\<open>bool\<close> it returns), the
  matrix behind the handle after the call, and the environment after the call.
\<close>

text \<open>
  The actual arguments of the calls of lines 320-324 and 335-339, which differ in
  the number of constraints and the mapping array they pass.
\<close>

definition MDS_Jac_cons_args ::
  "'t hiopNlpFormulation \<Rightarrow> long_long \<Rightarrow> long_long list \<Rightarrow> double list \<Rightarrow> bool
   \<Rightarrow> hiopMatrixMDS \<Rightarrow> jac_cons_args" where
  "MDS_Jac_cons_args nlp num_cons idx_cons x new_x pJac =
    (let nnz = sp_nnz pJac
     in \<lparr>jc_n = n_vars nlp, jc_m = n_cons nlp,
         jc_num_cons = num_cons, jc_idx_cons = idx_cons,
         jc_x = x, jc_new_x = new_x,
         jc_nsparse = n_sp pJac, jc_ndense = n_de pJac,
         jc_nnzJacS = nnz, jc_iJacS = sp_irow pJac,
         jc_jJacS = sp_jcol pJac, jc_MJacS = sp_M pJac,
         jc_JacD = de_local_data pJac\<rparr>)"

definition MDS_eval_Jac_c ::
  "'u hiopInterfaceMDS \<Rightarrow> 't hiopNlpFormulation \<Rightarrow> double list \<Rightarrow> bool \<Rightarrow> hiopMatrix
   \<Rightarrow> ('u, 's) env \<Rightarrow> (error + bool) \<times> hiopMatrix \<times> ('u, 's) env" where
  "MDS_eval_Jac_c interface nlp x new_x Jac_c e =
    (case Jac_c of
       MatrixMDS pJac_c \<Rightarrow>
         let args = MDS_Jac_cons_args nlp (n_cons_eq nlp) (cons_eq_mapping nlp)
                      x new_x pJac_c;
             (out, u') = eval_Jac_cons interface args (user e)
         in (Inr (jo_ret out),
             MatrixMDS (pJac_c\<lparr>sp_irow := jo_iJacS out, sp_jcol := jo_jJacS out,
                                sp_M := jo_MJacS out, de_local_data := jo_JacD out\<rparr>),
             e\<lparr>user := u', trace := trace e @ [EvalJacCons args]\<rparr>)
     | _ \<Rightarrow> (assert_then False (Inr False), Jac_c, e))"

definition MDS_eval_Jac_d ::
  "'u hiopInterfaceMDS \<Rightarrow> 't hiopNlpFormulation \<Rightarrow> double list \<Rightarrow> bool \<Rightarrow> hiopMatrix
   \<Rightarrow> ('u, 's) env \<Rightarrow> (error + bool) \<times> hiopMatrix \<times> ('u, 's) env" where
  "MDS_eval_Jac_d interface nlp x new_x Jac_d e =
    (case Jac_d of
       MatrixMDS pJac_d \<Rightarrow>
         let args = MDS_Jac_cons_args nlp (n_cons_ineq nlp) (cons_ineq_mapping nlp)
                      x new_x pJac_d;
             (out, u') = eval_Jac_cons interface args (user e)
         in (Inr (jo_ret out),
             MatrixMDS (pJac_d\<lparr>sp_irow := jo_iJacS out, sp_jcol := jo_jJacS out,
                                sp_M := jo_MJacS out, de_local_data := jo_JacD out\<rparr>),
             e\<lparr>user := u', trace := trace e @ [EvalJacCons args]\<rparr>)
     | _ \<Rightarrow> (assert_then False (Inr False), Jac_d, e))"

text \<open>The actual arguments of the call of lines 351-355.\<close>

definition MDS_Hess_Lagr_args ::
  "'t hiopNlpFormulation \<Rightarrow> double list \<Rightarrow> bool \<Rightarrow> double \<Rightarrow> double list \<Rightarrow> bool
   \<Rightarrow> hiopMatrixSymBlockDiagMDS \<Rightarrow> hess_lagr_args" where
  "MDS_Hess_Lagr_args nlp x new_x obj_factor lambda new_lambda pHessL =
    (let nnzHSS = hs_sp_nnz pHessL; nnzHSD = 0
     in \<lparr>hl_n = n_vars nlp, hl_m = n_cons nlp, hl_x = x, hl_new_x = new_x,
         hl_obj_factor = obj_factor, hl_lambda = lambda, hl_new_lambda = new_lambda,
         hl_nsparse = hs_n_sp pHessL, hl_ndense = hs_n_de pHessL,
         hl_nnzHSS = nnzHSS, hl_iHSS = hs_sp_irow pHessL, hl_jHSS = hs_sp_jcol pHessL,
         hl_MHSS = hs_sp_M pHessL, hl_HDD = hs_de_local_data pHessL,
         hl_nnzHSD = nnzHSD, hl_iHSD = None, hl_jHSD = None, hl_MHSD = None\<rparr>)"

definition MDS_eval_Hess_Lagr ::
  "'u hiopInterfaceMDS \<Rightarrow> 't hiopNlpFormulation \<Rightarrow> double list \<Rightarrow> bool \<Rightarrow> double
   \<Rightarrow> double list \<Rightarrow> bool \<Rightarrow> hiopMatrix
   \<Rightarrow> ('u, 's) env \<Rightarrow> (error + bool) \<times> hiopMatrix \<times> ('u, 's) env" where
  "MDS_eval_Hess_Lagr interface nlp x new_x obj_factor lambda new_lambda Hess_L e =
    (case Hess_L of
       MatrixSymBlockDiagMDS pHessL \<Rightarrow>
         let args = MDS_Hess_Lagr_args nlp x new_x obj_factor lambda new_lambda pHessL;
             (out, u') = eval_Hess_Lagr interface args (user e);
             bret = ho_ret out;
             nnzHSS = ho_nnzHSS out;
             nnzHSD = ho_nnzHSD out;
             pHessL' = pHessL\<lparr>hs_sp_irow := ho_iHSS out, hs_sp_jcol := ho_jHSS out,
                               hs_sp_M := ho_MHSS out, hs_de_local_data := ho_HDD out\<rparr>
         in (assert_then (nnzHSD = 0)
               (assert_then (nnzHSS = hs_sp_nnz pHessL') (Inr bret)),
             MatrixSymBlockDiagMDS pHessL',
             e\<lparr>user := u', trace := trace e @ [EvalHessLagr args]\<rparr>)
     | _ \<Rightarrow> (assert_then False (Inr False), Hess_L, e))"

subsection \<open>hiopNlpDenseConstraints: the derivative evaluations (lines 257-285)\<close>

definition internal_error_msg :: string where
  "internal_error_msg =
     ''[internal error] hiopNlpDenseConstraints NLP works only with dense matrices''
     @ [CHR 0x0A]"

text \<open>
  The overloads \<^verbatim>\<open>eval_Jac_c(double*, bool, double**)\<close> and
  \<^verbatim>\<open>eval_Jac_d(double*, bool, double**)\<close> are declared at lines 278-279 and
  defined outside this header; the generic variants take them as the parameter
  \<open>raw\<close>, a function of the formulation, the point, the flag, the dense buffer and
  the environment.
\<close>

type_synonym ('t, 'u, 's) raw_eval_Jac =
  "'t hiopNlpFormulation \<Rightarrow> double list \<Rightarrow> bool \<Rightarrow> double list list \<Rightarrow> ('u, 's) env
   \<Rightarrow> (error + bool) \<times> double list list \<times> ('u, 's) env"

definition Dense_eval_Jac_c ::
  "('t, 'u, 's) raw_eval_Jac \<Rightarrow> 't hiopNlpFormulation \<Rightarrow> double list \<Rightarrow> bool \<Rightarrow> hiopMatrix
   \<Rightarrow> ('u, 's) env \<Rightarrow> (error + bool) \<times> hiopMatrix \<times> ('u, 's) env" where
  "Dense_eval_Jac_c raw nlp x new_x Jac_c e =
    (case Jac_c of
       MatrixDense Jac_cde \<Rightarrow>
         let (r, M', e') = raw nlp x new_x (local_data Jac_cde) e
         in (r, MatrixDense (Jac_cde\<lparr>local_data := M'\<rparr>), e')
     | _ \<Rightarrow> (Inr False, Jac_c,
              e\<lparr>trace := trace e @ [LogPrintf hovError internal_error_msg]\<rparr>))"

definition Dense_eval_Jac_d ::
  "('t, 'u, 's) raw_eval_Jac \<Rightarrow> 't hiopNlpFormulation \<Rightarrow> double list \<Rightarrow> bool \<Rightarrow> hiopMatrix
   \<Rightarrow> ('u, 's) env \<Rightarrow> (error + bool) \<times> hiopMatrix \<times> ('u, 's) env" where
  "Dense_eval_Jac_d raw nlp x new_x Jac_d e =
    (case Jac_d of
       MatrixDense Jac_dde \<Rightarrow>
         let (r, M', e') = raw nlp x new_x (local_data Jac_dde) e
         in (r, MatrixDense (Jac_dde\<lparr>local_data := M'\<rparr>), e')
     | _ \<Rightarrow> (Inr False, Jac_d,
              e\<lparr>trace := trace e @ [LogPrintf hovError internal_error_msg]\<rparr>))"

text \<open>\<^verbatim>\<open>assert(false && "this NLP formulation is only for Quasi-Newton"); return true;\<close>\<close>

definition Dense_eval_Hess_Lagr ::
  "'t hiopNlpFormulation \<Rightarrow> double list \<Rightarrow> bool \<Rightarrow> double \<Rightarrow> double list \<Rightarrow> bool
   \<Rightarrow> hiopMatrix \<Rightarrow> error + bool" where
  "Dense_eval_Hess_Lagr nlp x new_x obj_factor lambda new_lambda Hess_L =
     assert_then False (Inr True)"

subsection \<open>hiopNlpFormulation: the reporting callbacks (lines 115-154)\<close>

text \<open>
  A \<^verbatim>\<open>dynamic_cast\<close> to \<^verbatim>\<open>const hiopVectorPar&\<close> of a vector of another class throws.
\<close>

fun as_VectorPar :: "hiopVector \<Rightarrow> error + hiopVectorPar" where
  "as_VectorPar (VectorPar v) = Inr v"
| "as_VectorPar (VectorOther k) = Inl BadCast"

definition user_callback_solution ::
  "('u, 's) hiopInterfaceBase \<Rightarrow> 't hiopNlpFormulation \<Rightarrow> 's
   \<Rightarrow> hiopVector \<Rightarrow> hiopVector \<Rightarrow> hiopVector \<Rightarrow> hiopVector \<Rightarrow> hiopVector
   \<Rightarrow> hiopVector \<Rightarrow> hiopVector \<Rightarrow> double
   \<Rightarrow> ('u, 's) env \<Rightarrow> (error + unit) \<times> 't hiopNlpFormulation \<times> ('u, 's) env" where
  "user_callback_solution interface_base nlp status x z_L z_U c d yc yd obj_value e =
    (case as_VectorPar x of Inl err \<Rightarrow> (Inl err, nlp, e) | Inr xp \<Rightarrow>
     case as_VectorPar z_L of Inl err \<Rightarrow> (Inl err, nlp, e) | Inr zl \<Rightarrow>
     case as_VectorPar z_U of Inl err \<Rightarrow> (Inl err, nlp, e) | Inr zu \<Rightarrow>
       if vec_size xp \<noteq> n_vars nlp then (Inl AssertionFailed, nlp, e)
       else if get_size c + get_size d \<noteq> n_cons nlp then (Inl AssertionFailed, nlp, e)
       else
         let args = \<lparr>sol_status = status,
                     sol_n = ucast (n_vars nlp), sol_x = vec_local_data xp,
                     sol_z_L = vec_local_data zl, sol_z_U = vec_local_data zu,
                     sol_m = ucast (n_cons nlp), sol_g = None,
                     sol_lambda = None,
                     sol_obj_value = obj_value\<rparr>;
             u' = solution_callback interface_base args (user e)
         in (Inr (), nlp, e\<lparr>user := u', trace := trace e @ [SolutionCallback args]\<rparr>))"

definition user_callback_iterate ::
  "('u, 's) hiopInterfaceBase \<Rightarrow> 't hiopNlpFormulation \<Rightarrow> c_int \<Rightarrow> double
   \<Rightarrow> hiopVector \<Rightarrow> hiopVector \<Rightarrow> hiopVector \<Rightarrow> hiopVector \<Rightarrow> hiopVector
   \<Rightarrow> hiopVector \<Rightarrow> hiopVector
   \<Rightarrow> double \<Rightarrow> double \<Rightarrow> double \<Rightarrow> double \<Rightarrow> double \<Rightarrow> c_int
   \<Rightarrow> ('u, 's) env \<Rightarrow> (error + bool) \<times> 't hiopNlpFormulation \<times> ('u, 's) env" where
  "user_callback_iterate interface_base nlp iter obj_value x z_L z_U c d yc yd
       inf_pr inf_du mu alpha_du alpha_pr ls_trials e =
    (case as_VectorPar x of Inl err \<Rightarrow> (Inl err, nlp, e) | Inr xp \<Rightarrow>
     case as_VectorPar z_L of Inl err \<Rightarrow> (Inl err, nlp, e) | Inr zl \<Rightarrow>
     case as_VectorPar z_U of Inl err \<Rightarrow> (Inl err, nlp, e) | Inr zu \<Rightarrow>
       if vec_size xp \<noteq> n_vars nlp then (Inl AssertionFailed, nlp, e)
       else if get_size c + get_size d \<noteq> n_cons nlp then (Inl AssertionFailed, nlp, e)
       else
         let args = \<lparr>it_iter = iter, it_obj_value = obj_value,
                     it_n = ucast (n_vars nlp), it_x = vec_local_data xp,
                     it_z_L = vec_local_data zl, it_z_U = vec_local_data zu,
                     it_m = ucast (n_cons nlp), it_g = None,
                     it_lambda = None,
                     it_inf_pr = inf_pr, it_inf_du = inf_du, it_mu = mu,
                     it_alpha_du = alpha_du, it_alpha_pr = alpha_pr,
                     it_ls_trials = ls_trials\<rparr>;
             (r, u') = iterate_callback interface_base args (user e)
         in (Inr r, nlp, e\<lparr>user := u', trace := trace e @ [IterateCallback args]\<rparr>))"

subsection \<open>hiopNlpFormulation: from internal to user objects (lines 183-190)\<close>

text \<open>
  The class \<^verbatim>\<open>hiopNlpTransformations\<close> is declared in hiopNlpTransforms.hpp; its
  three methods used here are parameters. \<^verbatim>\<open>applyTox\<close> returns the array its result
  points to, and the state of the chain after the call.
\<close>

record 't hiopNlpTransformations =
  applyToObj :: "'t \<Rightarrow> double \<Rightarrow> double"
  applyTox :: "'t \<Rightarrow> double list \<Rightarrow> bool \<Rightarrow> double list \<times> 't"
  n_post_local :: "'t \<Rightarrow> long_long"

text \<open>
  \<^verbatim>\<open>memcpy(dst, src, nbytes)\<close> between two arrays of \<^verbatim>\<open>double\<close>, with
  \<^verbatim>\<open>sizeof(double) = 8\<close> and a 64-bit \<^verbatim>\<open>size_t\<close>: the first \<open>nbytes div 8\<close> elements
  of \<open>dst\<close> are overwritten by those of \<open>src\<close>. Reading or writing beyond the end of
  either array is the error \<open>OutOfBounds\<close>.
\<close>

definition sizeof_double :: "64 word" where
  "sizeof_double = 8"

definition memcpy_double :: "double list \<Rightarrow> double list \<Rightarrow> 64 word \<Rightarrow> error + double list" where
  "memcpy_double dst src nbytes =
    (let k = unat nbytes div 8
     in if k \<le> length dst \<and> k \<le> length src then Inr (take k src @ drop k dst)
        else Inl OutOfBounds)"

definition user_obj :: "'t hiopNlpTransformations \<Rightarrow> 't hiopNlpFormulation \<Rightarrow> double \<Rightarrow> double" where
  "user_obj tr nlp hiop_f = applyToObj tr (nlp_transformations nlp) hiop_f"

text \<open>
  \<open>user_x\<close> returns the caller's buffer after the copy (or the error) and the
  formulation, whose transformation chain is in the state \<^verbatim>\<open>applyTox\<close> left it in.
\<close>

definition user_x ::
  "'t hiopNlpTransformations \<Rightarrow> 't hiopNlpFormulation \<Rightarrow> hiopVectorPar \<Rightarrow> double list
   \<Rightarrow> (error + double list) \<times> 't hiopNlpFormulation" where
  "user_x tr nlp hiop_x user_x_buf =
    (let hiop_xa = vec_local_data hiop_x;
         (user_xa, t') = applyTox tr (nlp_transformations nlp) hiop_xa True
     in (memcpy_double user_x_buf user_xa (n_post_local tr t' * sizeof_double),
         nlp\<lparr>nlp_transformations := t'\<rparr>))"

subsection \<open>The classification of the constraints at finalization\<close>

text \<open>
  Modelled from the spec: \<^verbatim>\<open>finalizeInitialization\<close> is declared at line 91 and
  defined outside this header. The specification says that it fails when the user
  interface reports a negative dimension or a variable whose lower bound exceeds
  its upper bound, that a constraint is tagged equality or inequality by comparing
  its declared lower and upper bound, and that the two mappings record, in order,
  the original index of each constraint of the equality and of the inequality
  block. The bounds of variable and constraint \<open>i\<close> are \<open>xlow i\<close>, \<open>xupp i\<close> and
  \<open>clow i\<close>, \<open>cupp i\<close>.
\<close>

record cons_classification =
  fin_n_cons :: nat
  fin_n_cons_eq :: nat
  fin_n_cons_ineq :: nat
  fin_cons_eq_mapping :: "nat list"
  fin_cons_ineq_mapping :: "nat list"

definition finalizeInitialization ::
  "int \<Rightarrow> int \<Rightarrow> (nat \<Rightarrow> double) \<Rightarrow> (nat \<Rightarrow> double) \<Rightarrow> (nat \<Rightarrow> double) \<Rightarrow> (nat \<Rightarrow> double)
   \<Rightarrow> cons_classification option" where
  "finalizeInitialization nvars ncons xlow xupp clow cupp =
    (if nvars < 0 \<or> ncons < 0 then None
     else if list_ex (\<lambda>i. xlow i > xupp i) [0..<nat nvars] then None
     else
       let eqs = filter (\<lambda>i. clow i = cupp i) [0..<nat ncons];
           ineqs = filter (\<lambda>i. clow i \<noteq> cupp i) [0..<nat ncons]
       in Some \<lparr>fin_n_cons = nat ncons,
                fin_n_cons_eq = length eqs, fin_n_cons_ineq = length ineqs,
                fin_cons_eq_mapping = eqs, fin_cons_ineq_mapping = ineqs\<rparr>)"

subsection \<open>What the specification says the reporting hooks receive\<close>

text \<open>
  The specification words of the reporting callbacks: the constraint values and the
  multipliers are assembled from the equality and inequality parts, entry \<open>i\<close> of
  the equality part going to position \<open>cons_eq_mapping[i]\<close> and entry \<open>j\<close> of the
  inequality part to position \<open>cons_ineq_mapping[j]\<close>.
\<close>

definition spec_assemble ::
  "nat \<Rightarrow> long_long list \<Rightarrow> long_long list \<Rightarrow> double list \<Rightarrow> double list \<Rightarrow> double list" where
  "spec_assemble ncons eq_map ineq_map c d =
     fold (\<lambda>(i, v) acc. acc[unat i := v]) (zip eq_map c @ zip ineq_map d) (replicate ncons 0)"

definition spec_solution_args ::
  "'t hiopNlpFormulation \<Rightarrow> 's \<Rightarrow> hiopVectorPar \<Rightarrow> hiopVectorPar \<Rightarrow> hiopVectorPar
   \<Rightarrow> hiopVectorPar \<Rightarrow> hiopVectorPar \<Rightarrow> hiopVectorPar \<Rightarrow> hiopVectorPar \<Rightarrow> double
   \<Rightarrow> 's solution_args" where
  "spec_solution_args nlp status xp zl zu c d yc yd obj_value =
     \<lparr>sol_status = status,
      sol_n = ucast (n_vars nlp), sol_x = vec_local_data xp,
      sol_z_L = vec_local_data zl, sol_z_U = vec_local_data zu,
      sol_m = ucast (n_cons nlp),
      sol_g = Some (spec_assemble (unat (n_cons nlp)) (cons_eq_mapping nlp)
                (cons_ineq_mapping nlp) (vec_local_data c) (vec_local_data d)),
      sol_lambda = Some (spec_assemble (unat (n_cons nlp)) (cons_eq_mapping nlp)
                (cons_ineq_mapping nlp) (vec_local_data yc) (vec_local_data yd)),
      sol_obj_value = obj_value\<rparr>"

subsection \<open>A small problem instance\<close>

text \<open>
  Two internal variables, two constraints (constraint 1 an equality, constraint 0 an
  inequality), a user whose state counts the callbacks it has received, and a
  transformation chain that restores a third variable fixed at the value 2.
\<close>

definition mk_vec :: "double list \<Rightarrow> hiopVectorPar" where
  "mk_vec xs = \<lparr>vec_size = of_nat (length xs), vec_local_size = of_nat (length xs),
               vec_local_data = xs\<rparr>"

definition ex_nlp :: "nat hiopNlpFormulation" where
  "ex_nlp = \<lparr>n_vars = 2, n_cons = 2, n_cons_eq = 1, n_cons_ineq = 1,
     n_bnds_low = 1, n_bnds_low_local = 1, n_bnds_upp = 2, n_bnds_upp_local = 2,
     n_ineq_low = 1, n_ineq_upp = 1, n_bnds_lu = 1, n_ineq_lu = 1,
     xl = mk_vec [0, - 100], xu = mk_vec [1, 5],
     ixu = mk_vec [1, 1], ixl = mk_vec [1, 0],
     vars_type = [hiopNonlinear, hiopNonlinear],
     c_rhs = mk_vec [3], cons_eq_type = [hiopLinear],
     dl = mk_vec [0], du = mk_vec [10], idl = mk_vec [1], idu = mk_vec [1],
     cons_ineq_type = [hiopNonlinear],
     cons_eq_mapping = [1], cons_ineq_mapping = [0],
     strFixedVars = ''fixed'', dFixedVarsTol = 0,
     nlp_transformations = 0\<rparr>"

definition ex_env :: "(nat, nat) env" where
  "ex_env = \<lparr>user = 0, trace = []\<rparr>"

definition ex_Jac :: hiopMatrixMDS where
  "ex_Jac = \<lparr>n_sp = 1, n_de = 1, sp_nnz = 1, sp_irow = [0], sp_jcol = [0], sp_M = [0],
            de_local_data = [[0]]\<rparr>"

definition ex_Hess :: hiopMatrixSymBlockDiagMDS where
  "ex_Hess = \<lparr>hs_n_sp = 1, hs_n_de = 1, hs_sp_nnz = 1, hs_sp_irow = [0], hs_sp_jcol = [0],
             hs_sp_M = [0], hs_de_local_data = [[0]]\<rparr>"

definition ex_Dense :: hiopMatrixDense where
  "ex_Dense = \<lparr>local_data = [[0, 0]]\<rparr>"

text \<open>
  A user whose callbacks fail (return \<^verbatim>\<open>false\<close>) and leave the buffers as they are;
  its Hessian callback reports \<open>hsd\<close> nonzeros in the sparse-dense coupling block.
\<close>

definition ex_interface_MDS :: "c_int \<Rightarrow> nat hiopInterfaceMDS" where
  "ex_interface_MDS hsd =
    \<lparr>eval_Jac_cons = (\<lambda>a u. (\<lparr>jo_ret = False, jo_iJacS = jc_iJacS a, jo_jJacS = jc_jJacS a,
                                 jo_MJacS = jc_MJacS a, jo_JacD = jc_JacD a\<rparr>, Suc u)),
     eval_Hess_Lagr = (\<lambda>a u. (\<lparr>ho_ret = False, ho_nnzHSS = hl_nnzHSS a, ho_iHSS = hl_iHSS a,
                                  ho_jHSS = hl_jHSS a, ho_MHSS = hl_MHSS a, ho_HDD = hl_HDD a,
                                  ho_nnzHSD = hsd\<rparr>, Suc u))\<rparr>"

definition ex_interface_base :: "(nat, nat) hiopInterfaceBase" where
  "ex_interface_base =
    \<lparr>solution_callback = (\<lambda>a u. Suc u), iterate_callback = (\<lambda>a u. (True, Suc u))\<rparr>"

text \<open>A raw dense evaluation that fills the buffer with ones and succeeds.\<close>

definition ex_raw :: "(nat, nat, nat) raw_eval_Jac" where
  "ex_raw nlp x new_x M e = (Inr True, map (map (\<lambda>v. 1)) M, e\<lparr>user := Suc (user e)\<rparr>)"

definition ex_transformations :: "nat hiopNlpTransformations" where
  "ex_transformations =
    \<lparr>applyToObj = (\<lambda>t f. f), applyTox = (\<lambda>t xa new_x. (xa @ [2], Suc t)),
     n_post_local = (\<lambda>t. 3)\<rparr>"

section \<open>Properties\<close>

subsection \<open>The complementarity count\<close>

lemma sint_sum4:
  fixes a b c d :: long_long
  assumes lo: "- (2 ^ 63) \<le> sint a + sint b + sint c + sint d"
    and hi: "sint a + sint b + sint c + sint d < 2 ^ 63"
  shows "sint (a + b + c + d) = sint a + sint b + sint c + sint d"
proof -
  have "a + b + c + d = word_of_int (sint a + sint b + sint c + sint d)"
    by simp
  then have "sint (a + b + c + d)
      = signed_take_bit (LENGTH(64) - 1) (sint a + sint b + sint c + sint d)"
    by (simp only: sint_sbintrunc')
  also have "\<dots> = sint a + sint b + sint c + sint d"
    using lo hi by (simp add: signed_take_bit_int_eq_self)
  finally show ?thesis .
qed

text \<open>
  Claim C9. At every state of a formulation, \<^verbatim>\<open>n_complem()\<close> is the sum
  \<^verbatim>\<open>m_ineq_low() + m_ineq_upp() + n_low() + n_upp()\<close> of the four accessors: as
  \<^verbatim>\<open>long long\<close> values always, and as mathematical integers whenever that sum
  fits the signed 64-bit range.
\<close>

theorem n_complem_is_sum:
  "n_complem nlp = m_ineq_low nlp + m_ineq_upp nlp + n_low nlp + n_upp nlp
   \<and> (- (2 ^ 63) \<le> sint (m_ineq_low nlp) + sint (m_ineq_upp nlp) + sint (n_low nlp) + sint (n_upp nlp)
      \<and> sint (m_ineq_low nlp) + sint (m_ineq_upp nlp) + sint (n_low nlp) + sint (n_upp nlp) < 2 ^ 63
      \<longrightarrow> sint (n_complem nlp)
          = sint (m_ineq_low nlp) + sint (m_ineq_upp nlp) + sint (n_low nlp) + sint (n_upp nlp))"
  unfolding n_complem_def using sint_sum4 by blast

theorem n_complem_is_sum_witness:
  "n_complem ex_nlp = 5 \<and> sint (n_complem ex_nlp) = 5"
  using n_complem_is_sum [of ex_nlp]
  by (simp add: ex_nlp_def m_ineq_low_def m_ineq_upp_def n_low_def n_upp_def)

subsection \<open>The dense specialization has no Hessian evaluation\<close>

text \<open>
  Claim C4. Every call of \<^verbatim>\<open>hiopNlpDenseConstraints::eval_Hess_Lagr\<close> fails its
  assertion; no call returns \<^verbatim>\<open>false\<close> (nor any other value).
\<close>

theorem Dense_eval_Hess_Lagr_asserts:
  "Dense_eval_Hess_Lagr nlp x new_x obj_factor lambda new_lambda Hess_L = Inl AssertionFailed
   \<and> Dense_eval_Hess_Lagr nlp x new_x obj_factor lambda new_lambda Hess_L \<noteq> Inr False"
  by (simp add: Dense_eval_Hess_Lagr_def assert_then_def)

subsection \<open>The reporting callbacks leave the formulation as it is\<close>

text \<open>
  Claim C8. Whatever the arguments and whatever the user's hooks do, the formulation
  (dimensions, bound and indicator vectors, mapping arrays, transformation chain)
  after \<^verbatim>\<open>user_callback_solution\<close> and after \<^verbatim>\<open>user_callback_iterate\<close> is the
  formulation before the call, also when the call ends in an error.
\<close>

theorem user_callbacks_frame:
  "fst (snd (user_callback_solution interface_base nlp status x z_L z_U c d yc yd obj_value e))
     = nlp
   \<and> fst (snd (user_callback_iterate interface_base nlp iter obj_value x z_L z_U c d yc yd
                  inf_pr inf_du mu alpha_du alpha_pr ls_trials e)) = nlp"
  by (simp add: user_callback_solution_def user_callback_iterate_def Let_def
      split: sum.splits prod.splits)

subsection \<open>The Jacobian evaluations of the MDS specialization\<close>

text \<open>
  Claim C1. When the handle is a mixed sparse-dense matrix, \<^verbatim>\<open>eval_Jac_c\<close> (resp.
  \<^verbatim>\<open>eval_Jac_d\<close>) adds exactly one event to the trace, the call of the user's
  Jacobian callback, whose arguments are the two problem dimensions, the number of
  equality (resp. inequality) constraints with \<open>cons_eq_mapping\<close> (resp.
  \<open>cons_ineq_mapping\<close>), the point and its flag, the sparse and dense dimensions of
  the matrix, its sparse nonzero count, its three coordinate buffers and its dense
  block; and the user's state afterwards is the one this single call produces.
\<close>

theorem MDS_eval_Jac_calls_user_once:
  "trace (snd (snd (MDS_eval_Jac_c interface nlp x new_x (MatrixMDS J) e)))
     = trace e @ [EvalJacCons
         \<lparr>jc_n = n_vars nlp, jc_m = n_cons nlp,
          jc_num_cons = n_cons_eq nlp, jc_idx_cons = cons_eq_mapping nlp,
          jc_x = x, jc_new_x = new_x, jc_nsparse = n_sp J, jc_ndense = n_de J,
          jc_nnzJacS = sp_nnz J, jc_iJacS = sp_irow J, jc_jJacS = sp_jcol J,
          jc_MJacS = sp_M J, jc_JacD = de_local_data J\<rparr>]
   \<and> user (snd (snd (MDS_eval_Jac_c interface nlp x new_x (MatrixMDS J) e)))
     = snd (eval_Jac_cons interface
         \<lparr>jc_n = n_vars nlp, jc_m = n_cons nlp,
          jc_num_cons = n_cons_eq nlp, jc_idx_cons = cons_eq_mapping nlp,
          jc_x = x, jc_new_x = new_x, jc_nsparse = n_sp J, jc_ndense = n_de J,
          jc_nnzJacS = sp_nnz J, jc_iJacS = sp_irow J, jc_jJacS = sp_jcol J,
          jc_MJacS = sp_M J, jc_JacD = de_local_data J\<rparr> (user e))
   \<and> trace (snd (snd (MDS_eval_Jac_d interface nlp x new_x (MatrixMDS J) e)))
     = trace e @ [EvalJacCons
         \<lparr>jc_n = n_vars nlp, jc_m = n_cons nlp,
          jc_num_cons = n_cons_ineq nlp, jc_idx_cons = cons_ineq_mapping nlp,
          jc_x = x, jc_new_x = new_x, jc_nsparse = n_sp J, jc_ndense = n_de J,
          jc_nnzJacS = sp_nnz J, jc_iJacS = sp_irow J, jc_jJacS = sp_jcol J,
          jc_MJacS = sp_M J, jc_JacD = de_local_data J\<rparr>]
   \<and> user (snd (snd (MDS_eval_Jac_d interface nlp x new_x (MatrixMDS J) e)))
     = snd (eval_Jac_cons interface
         \<lparr>jc_n = n_vars nlp, jc_m = n_cons nlp,
          jc_num_cons = n_cons_ineq nlp, jc_idx_cons = cons_ineq_mapping nlp,
          jc_x = x, jc_new_x = new_x, jc_nsparse = n_sp J, jc_ndense = n_de J,
          jc_nnzJacS = sp_nnz J, jc_iJacS = sp_irow J, jc_jJacS = sp_jcol J,
          jc_MJacS = sp_M J, jc_JacD = de_local_data J\<rparr> (user e))"
  by (simp add: MDS_eval_Jac_c_def MDS_eval_Jac_d_def MDS_Jac_cons_args_def Let_def
      split: prod.splits)


subsection \<open>The Jacobian evaluations of the dense specialization\<close>

text \<open>
  Claim C2. When the handle is not a dense matrix, \<^verbatim>\<open>eval_Jac_c\<close> and \<^verbatim>\<open>eval_Jac_d\<close>
  of the dense specialization send the internal-error message to the logger at
  level \<^verbatim>\<open>hovError\<close> and return \<^verbatim>\<open>false\<close>; nothing else happens (no callback, the
  user's state and the matrix are as before). When the handle is dense, the result
  is that of the raw evaluation on the matrix's buffer.
\<close>

theorem Dense_eval_Jac_checks_handle:
  "(\<not> is_dense Jac \<longrightarrow>
      Dense_eval_Jac_c raw nlp x new_x Jac e
        = (Inr False, Jac, e\<lparr>trace := trace e @ [LogPrintf hovError internal_error_msg]\<rparr>)
    \<and> Dense_eval_Jac_d raw nlp x new_x Jac e
        = (Inr False, Jac, e\<lparr>trace := trace e @ [LogPrintf hovError internal_error_msg]\<rparr>))
   \<and> Dense_eval_Jac_c raw nlp x new_x (MatrixDense D) e
        = (case raw nlp x new_x (local_data D) e of
             (r, M', e') \<Rightarrow> (r, MatrixDense (D\<lparr>local_data := M'\<rparr>), e'))
   \<and> Dense_eval_Jac_d raw nlp x new_x (MatrixDense D) e
        = (case raw nlp x new_x (local_data D) e of
             (r, M', e') \<Rightarrow> (r, MatrixDense (D\<lparr>local_data := M'\<rparr>), e'))"
  by (cases Jac) (simp_all add: Dense_eval_Jac_c_def Dense_eval_Jac_d_def)

theorem Dense_eval_Jac_checks_handle_witness:
  "\<not> is_dense (MatrixMDS ex_Jac)
   \<and> Dense_eval_Jac_c ex_raw ex_nlp [0, 0] True (MatrixMDS ex_Jac) ex_env
       = (Inr False, MatrixMDS ex_Jac,
          \<lparr>user = 0, trace = [LogPrintf hovError internal_error_msg]\<rparr>)
   \<and> Dense_eval_Jac_c ex_raw ex_nlp [0, 0] True (MatrixDense ex_Dense) ex_env
       = (Inr True, MatrixDense \<lparr>local_data = [[1, 1]]\<rparr>, \<lparr>user = 1, trace = []\<rparr>)"
  using Dense_eval_Jac_checks_handle
    [of "MatrixMDS ex_Jac" ex_raw ex_nlp "[0, 0]" True ex_env ex_Dense]
  by (simp add: ex_env_def ex_raw_def ex_Dense_def)

subsection \<open>The Hessian evaluation of the MDS specialization\<close>

text \<open>
  Claim C3. When the handle is a symmetric block-diagonal MDS matrix and the user's
  Hessian callback reports a nonzero count for the sparse-dense coupling block,
  \<^verbatim>\<open>eval_Hess_Lagr\<close> fails an assertion: it does not return.
\<close>

theorem MDS_eval_Hess_Lagr_coupling_asserts:
  assumes "ho_nnzHSD (fst (eval_Hess_Lagr interface
             (MDS_Hess_Lagr_args nlp x new_x obj_factor lambda new_lambda H) (user e))) \<noteq> 0"
  shows "fst (MDS_eval_Hess_Lagr interface nlp x new_x obj_factor lambda new_lambda
                (MatrixSymBlockDiagMDS H) e) = Inl AssertionFailed"
  using assms
  by (simp add: MDS_eval_Hess_Lagr_def assert_then_def Let_def case_prod_beta)

theorem MDS_eval_Hess_Lagr_coupling_asserts_witness:
  "ho_nnzHSD (fst (eval_Hess_Lagr (ex_interface_MDS 1)
       (MDS_Hess_Lagr_args ex_nlp [0, 0] True 1 [0, 0] True ex_Hess) (user ex_env))) \<noteq> 0
   \<and> fst (MDS_eval_Hess_Lagr (ex_interface_MDS 1) ex_nlp [0, 0] True 1 [0, 0] True
            (MatrixSymBlockDiagMDS ex_Hess) ex_env) = Inl AssertionFailed"
  using MDS_eval_Hess_Lagr_coupling_asserts
    [of "ex_interface_MDS 1" ex_nlp "[0, 0]" True 1 "[0, 0]" True ex_Hess ex_env]
  by (simp add: ex_interface_MDS_def)

subsection \<open>What the MDS evaluations return\<close>

text \<open>
  Claim C6, as stated, at a concrete input: the user's Hessian callback fails
  (returns \<^verbatim>\<open>false\<close>) and reports one nonzero in the coupling block. The evaluation
  does not return the callback's \<^verbatim>\<open>false\<close>: it fails the assertion.
\<close>

theorem MDS_eval_Hess_Lagr_not_callback_result:
  "fst (MDS_eval_Hess_Lagr (ex_interface_MDS 1) ex_nlp [0, 0] True 1 [0, 0] True
          (MatrixSymBlockDiagMDS ex_Hess) ex_env)
   \<noteq> Inr (ho_ret (fst (eval_Hess_Lagr (ex_interface_MDS 1)
            (MDS_Hess_Lagr_args ex_nlp [0, 0] True 1 [0, 0] True ex_Hess) (user ex_env))))"
  by (simp add: MDS_eval_Hess_Lagr_def assert_then_def Let_def ex_interface_MDS_def)

text \<open>
  Claim C6, amended. With a successful downcast, \<^verbatim>\<open>eval_Jac_c\<close> and \<^verbatim>\<open>eval_Jac_d\<close> of
  the MDS specialization return exactly the \<^verbatim>\<open>bool\<close> of the user's Jacobian callback.
  \<^verbatim>\<open>eval_Hess_Lagr\<close> returns exactly the \<^verbatim>\<open>bool\<close> of the user's Hessian callback when
  the callback leaves the coupling-block count at zero and the sparse count equal
  to the matrix's; otherwise it fails an assertion, whatever the callback returned.
\<close>

theorem MDS_eval_returns_callback_result:
  "fst (MDS_eval_Jac_c interface nlp x new_x (MatrixMDS J) e)
     = Inr (jo_ret (fst (eval_Jac_cons interface
         (MDS_Jac_cons_args nlp (n_cons_eq nlp) (cons_eq_mapping nlp) x new_x J) (user e))))
   \<and> fst (MDS_eval_Jac_d interface nlp x new_x (MatrixMDS J) e)
     = Inr (jo_ret (fst (eval_Jac_cons interface
         (MDS_Jac_cons_args nlp (n_cons_ineq nlp) (cons_ineq_mapping nlp) x new_x J) (user e))))
   \<and> fst (MDS_eval_Hess_Lagr interface nlp x new_x obj_factor lambda new_lambda
            (MatrixSymBlockDiagMDS H) e)
     = (let out = fst (eval_Hess_Lagr interface
                    (MDS_Hess_Lagr_args nlp x new_x obj_factor lambda new_lambda H) (user e))
        in if ho_nnzHSD out = 0 \<and> ho_nnzHSS out = hs_sp_nnz H then Inr (ho_ret out)
           else Inl AssertionFailed)"
  by (simp add: MDS_eval_Jac_c_def MDS_eval_Jac_d_def MDS_eval_Hess_Lagr_def
      assert_then_def Let_def case_prod_beta)

theorem MDS_eval_returns_callback_result_witness:
  "fst (MDS_eval_Jac_c (ex_interface_MDS 0) ex_nlp [0, 0] True (MatrixMDS ex_Jac) ex_env)
     = Inr False
   \<and> fst (MDS_eval_Jac_d (ex_interface_MDS 0) ex_nlp [0, 0] True (MatrixMDS ex_Jac) ex_env)
     = Inr False
   \<and> fst (MDS_eval_Hess_Lagr (ex_interface_MDS 0) ex_nlp [0, 0] True 1 [0, 0] True
            (MatrixSymBlockDiagMDS ex_Hess) ex_env) = Inr False"
  using MDS_eval_returns_callback_result
    [of "ex_interface_MDS 0" ex_nlp "[0, 0]" True ex_Jac ex_env 1 "[0, 0]" True ex_Hess]
  by (simp add: ex_interface_MDS_def MDS_Hess_Lagr_args_def Let_def)


subsection \<open>What the reporting hooks receive\<close>

text \<open>
  On the normal path each callback makes one call of the user's hook; the two
  lists of actual arguments are those of lines 130-134 and 149-153.
\<close>

lemma user_callbacks_call:
  assumes "vec_size xp = n_vars nlp" and "get_size c + get_size d = n_cons nlp"
  shows "user_callback_solution interface_base nlp status
           (VectorPar xp) (VectorPar zl) (VectorPar zu) c d yc yd obj_value e
         = (Inr (), nlp,
            e\<lparr>user := solution_callback interface_base
                 \<lparr>sol_status = status, sol_n = ucast (n_vars nlp),
                  sol_x = vec_local_data xp, sol_z_L = vec_local_data zl,
                  sol_z_U = vec_local_data zu, sol_m = ucast (n_cons nlp),
                  sol_g = None, sol_lambda = None, sol_obj_value = obj_value\<rparr> (user e),
              trace := trace e @ [SolutionCallback
                 \<lparr>sol_status = status, sol_n = ucast (n_vars nlp),
                  sol_x = vec_local_data xp, sol_z_L = vec_local_data zl,
                  sol_z_U = vec_local_data zu, sol_m = ucast (n_cons nlp),
                  sol_g = None, sol_lambda = None, sol_obj_value = obj_value\<rparr>]\<rparr>)
       \<and> user_callback_iterate interface_base nlp iter obj_value
           (VectorPar xp) (VectorPar zl) (VectorPar zu) c d yc yd
           inf_pr inf_du mu alpha_du alpha_pr ls_trials e
         = (Inr (fst (iterate_callback interface_base
                 \<lparr>it_iter = iter, it_obj_value = obj_value, it_n = ucast (n_vars nlp),
                  it_x = vec_local_data xp, it_z_L = vec_local_data zl,
                  it_z_U = vec_local_data zu, it_m = ucast (n_cons nlp),
                  it_g = None, it_lambda = None, it_inf_pr = inf_pr, it_inf_du = inf_du,
                  it_mu = mu, it_alpha_du = alpha_du, it_alpha_pr = alpha_pr,
                  it_ls_trials = ls_trials\<rparr> (user e))), nlp,
            e\<lparr>user := snd (iterate_callback interface_base
                 \<lparr>it_iter = iter, it_obj_value = obj_value, it_n = ucast (n_vars nlp),
                  it_x = vec_local_data xp, it_z_L = vec_local_data zl,
                  it_z_U = vec_local_data zu, it_m = ucast (n_cons nlp),
                  it_g = None, it_lambda = None, it_inf_pr = inf_pr, it_inf_du = inf_du,
                  it_mu = mu, it_alpha_du = alpha_du, it_alpha_pr = alpha_pr,
                  it_ls_trials = ls_trials\<rparr> (user e)),
              trace := trace e @ [IterateCallback
                 \<lparr>it_iter = iter, it_obj_value = obj_value, it_n = ucast (n_vars nlp),
                  it_x = vec_local_data xp, it_z_L = vec_local_data zl,
                  it_z_U = vec_local_data zu, it_m = ucast (n_cons nlp),
                  it_g = None, it_lambda = None, it_inf_pr = inf_pr, it_inf_du = inf_du,
                  it_mu = mu, it_alpha_du = alpha_du, it_alpha_pr = alpha_pr,
                  it_ls_trials = ls_trials\<rparr>]\<rparr>)"
  using assms
  by (simp add: user_callback_solution_def user_callback_iterate_def Let_def case_prod_beta)

text \<open>
  Claim C7, as stated, at a concrete input: the formulation has two variables and
  the vector \<open>x\<close> handed to \<^verbatim>\<open>user_callback_solution\<close> has global size three. The
  first assertion fails and the user's hook is not called.
\<close>

theorem user_callback_solution_no_call:
  "fst (user_callback_solution ex_interface_base ex_nlp 0
          (VectorPar (mk_vec [1, 2, 3])) (VectorPar (mk_vec [0, 0])) (VectorPar (mk_vec [0, 0]))
          (VectorPar (mk_vec [3])) (VectorPar (mk_vec [5]))
          (VectorPar (mk_vec [1])) (VectorPar (mk_vec [0])) 7 ex_env) = Inl AssertionFailed
   \<and> trace (snd (snd (user_callback_solution ex_interface_base ex_nlp 0
          (VectorPar (mk_vec [1, 2, 3])) (VectorPar (mk_vec [0, 0])) (VectorPar (mk_vec [0, 0]))
          (VectorPar (mk_vec [3])) (VectorPar (mk_vec [5]))
          (VectorPar (mk_vec [1])) (VectorPar (mk_vec [0])) 7 ex_env))) = trace ex_env"
  by (simp add: user_callback_solution_def ex_nlp_def mk_vec_def)

text \<open>
  On the normal path at the small instance, with the equality value 3, the
  inequality value 5 and the multipliers 1 and 0: the hook is not called with the
  assembled constraint values \<open>[5, 3]\<close> and multipliers \<open>[0, 1]\<close>. Lines 132-133 pass
  two null pointers, under the note that the assembly is still to do.
\<close>

theorem user_callback_solution_not_assembled:
  "trace (snd (snd (user_callback_solution ex_interface_base ex_nlp 0
             (VectorPar (mk_vec [1, 2])) (VectorPar (mk_vec [0, 0])) (VectorPar (mk_vec [0, 0]))
             (VectorPar (mk_vec [3])) (VectorPar (mk_vec [5]))
             (VectorPar (mk_vec [1])) (VectorPar (mk_vec [0])) 7 ex_env)))
   \<noteq> trace ex_env @ [SolutionCallback (spec_solution_args ex_nlp 0
             (mk_vec [1, 2]) (mk_vec [0, 0]) (mk_vec [0, 0])
             (mk_vec [3]) (mk_vec [5]) (mk_vec [1]) (mk_vec [0]) 7)]"
  by (simp add: user_callback_solution_def spec_solution_args_def ex_nlp_def ex_env_def
      mk_vec_def Let_def)

text \<open>
  Claim C7, amended. When \<open>x\<close>, \<open>z_L\<close> and \<open>z_U\<close> are parallel vectors and the two size
  assertions hold, \<^verbatim>\<open>user_callback_solution\<close> and \<^verbatim>\<open>user_callback_iterate\<close> call the
  user's hook exactly once, with the variable count cast to \<^verbatim>\<open>int\<close>, the local data
  of \<open>x\<close>, \<open>z_L\<close> and \<open>z_U\<close> as they are, the constraint count cast to \<^verbatim>\<open>int\<close> and the
  objective value; \<^verbatim>\<open>user_callback_iterate\<close> returns the hook's result. Nothing is
  said of the two arguments for the constraint values and multipliers.
\<close>

theorem user_callbacks_report:
  assumes "vec_size xp = n_vars nlp" and "get_size c + get_size d = n_cons nlp"
  shows "(\<exists>a. user_callback_solution interface_base nlp status
              (VectorPar xp) (VectorPar zl) (VectorPar zu) c d yc yd obj_value e
            = (Inr (), nlp, e\<lparr>user := solution_callback interface_base a (user e),
                               trace := trace e @ [SolutionCallback a]\<rparr>)
          \<and> sol_status a = status \<and> sol_n a = ucast (n_vars nlp)
          \<and> sol_x a = vec_local_data xp \<and> sol_z_L a = vec_local_data zl
          \<and> sol_z_U a = vec_local_data zu \<and> sol_m a = ucast (n_cons nlp)
          \<and> sol_obj_value a = obj_value)
       \<and> (\<exists>a. user_callback_iterate interface_base nlp iter obj_value
              (VectorPar xp) (VectorPar zl) (VectorPar zu) c d yc yd
              inf_pr inf_du mu alpha_du alpha_pr ls_trials e
            = (Inr (fst (iterate_callback interface_base a (user e))), nlp,
               e\<lparr>user := snd (iterate_callback interface_base a (user e)),
                 trace := trace e @ [IterateCallback a]\<rparr>)
          \<and> it_iter a = iter \<and> it_obj_value a = obj_value
          \<and> it_n a = ucast (n_vars nlp)
          \<and> it_x a = vec_local_data xp \<and> it_z_L a = vec_local_data zl
          \<and> it_z_U a = vec_local_data zu \<and> it_m a = ucast (n_cons nlp)
          \<and> it_inf_pr a = inf_pr \<and> it_inf_du a = inf_du \<and> it_mu a = mu
          \<and> it_alpha_du a = alpha_du \<and> it_alpha_pr a = alpha_pr
          \<and> it_ls_trials a = ls_trials)"
proof (rule conjI)
  let ?a = "\<lparr>sol_status = status, sol_n = ucast (n_vars nlp),
             sol_x = vec_local_data xp, sol_z_L = vec_local_data zl,
             sol_z_U = vec_local_data zu, sol_m = ucast (n_cons nlp),
             sol_g = None, sol_lambda = None, sol_obj_value = obj_value\<rparr>"
  show "\<exists>a. user_callback_solution interface_base nlp status
              (VectorPar xp) (VectorPar zl) (VectorPar zu) c d yc yd obj_value e
            = (Inr (), nlp, e\<lparr>user := solution_callback interface_base a (user e),
                               trace := trace e @ [SolutionCallback a]\<rparr>)
          \<and> sol_status a = status \<and> sol_n a = ucast (n_vars nlp)
          \<and> sol_x a = vec_local_data xp \<and> sol_z_L a = vec_local_data zl
          \<and> sol_z_U a = vec_local_data zu \<and> sol_m a = ucast (n_cons nlp)
          \<and> sol_obj_value a = obj_value"
    by (rule exI [of _ ?a]) (simp add: user_callbacks_call [OF assms])
next
  let ?a = "\<lparr>it_iter = iter, it_obj_value = obj_value, it_n = ucast (n_vars nlp),
             it_x = vec_local_data xp, it_z_L = vec_local_data zl,
             it_z_U = vec_local_data zu, it_m = ucast (n_cons nlp),
             it_g = None, it_lambda = None, it_inf_pr = inf_pr, it_inf_du = inf_du,
             it_mu = mu, it_alpha_du = alpha_du, it_alpha_pr = alpha_pr,
             it_ls_trials = ls_trials\<rparr>"
  show "\<exists>a. user_callback_iterate interface_base nlp iter obj_value
              (VectorPar xp) (VectorPar zl) (VectorPar zu) c d yc yd
              inf_pr inf_du mu alpha_du alpha_pr ls_trials e
            = (Inr (fst (iterate_callback interface_base a (user e))), nlp,
               e\<lparr>user := snd (iterate_callback interface_base a (user e)),
                 trace := trace e @ [IterateCallback a]\<rparr>)
          \<and> it_iter a = iter \<and> it_obj_value a = obj_value
          \<and> it_n a = ucast (n_vars nlp)
          \<and> it_x a = vec_local_data xp \<and> it_z_L a = vec_local_data zl
          \<and> it_z_U a = vec_local_data zu \<and> it_m a = ucast (n_cons nlp)
          \<and> it_inf_pr a = inf_pr \<and> it_inf_du a = inf_du \<and> it_mu a = mu
          \<and> it_alpha_du a = alpha_du \<and> it_alpha_pr a = alpha_pr
          \<and> it_ls_trials a = ls_trials"
    by (rule exI [of _ ?a]) (simp add: user_callbacks_call [OF assms])
qed

theorem user_callbacks_report_witness:
  "vec_size (mk_vec [1, 2]) = n_vars ex_nlp
   \<and> get_size (VectorPar (mk_vec [3])) + get_size (VectorPar (mk_vec [5])) = n_cons ex_nlp
   \<and> (\<exists>a. user_callback_solution ex_interface_base ex_nlp 0
        (VectorPar (mk_vec [1, 2])) (VectorPar (mk_vec [0, 0])) (VectorPar (mk_vec [0, 0]))
        (VectorPar (mk_vec [3])) (VectorPar (mk_vec [5]))
        (VectorPar (mk_vec [1])) (VectorPar (mk_vec [0])) 7 ex_env
          = (Inr (), ex_nlp, \<lparr>user = 1, trace = [SolutionCallback a]\<rparr>)
      \<and> sol_n a = 2 \<and> sol_x a = [1, 2] \<and> sol_z_L a = [0, 0] \<and> sol_z_U a = [0, 0]
      \<and> sol_m a = 2 \<and> sol_obj_value a = 7)"
proof -
  have sz: "vec_size (mk_vec [1, 2]) = n_vars ex_nlp"
    by (simp add: mk_vec_def ex_nlp_def)
  have cd: "get_size (VectorPar (mk_vec [3])) + get_size (VectorPar (mk_vec [5])) = n_cons ex_nlp"
    by (simp add: mk_vec_def ex_nlp_def)
  have nv: "n_vars ex_nlp = 2" and nc: "n_cons ex_nlp = 2"
    by (simp_all add: ex_nlp_def)
  from user_callbacks_report [OF sz cd, THEN conjunct1, of ex_interface_base 0 "mk_vec [0, 0]"
        "mk_vec [0, 0]" "VectorPar (mk_vec [1])" "VectorPar (mk_vec [0])" 7 ex_env]
  obtain a where a: "user_callback_solution ex_interface_base ex_nlp 0
        (VectorPar (mk_vec [1, 2])) (VectorPar (mk_vec [0, 0])) (VectorPar (mk_vec [0, 0]))
        (VectorPar (mk_vec [3])) (VectorPar (mk_vec [5]))
        (VectorPar (mk_vec [1])) (VectorPar (mk_vec [0])) 7 ex_env
          = (Inr (), ex_nlp, ex_env\<lparr>user := solution_callback ex_interface_base a (user ex_env),
                               trace := trace ex_env @ [SolutionCallback a]\<rparr>)"
      and "sol_n a = ucast (n_vars ex_nlp)" and "sol_x a = vec_local_data (mk_vec [1, 2])"
      and "sol_z_L a = vec_local_data (mk_vec [0, 0])"
      and "sol_z_U a = vec_local_data (mk_vec [0, 0])"
      and "sol_m a = ucast (n_cons ex_nlp)" and "sol_obj_value a = 7"
    by blast
  then have "user_callback_solution ex_interface_base ex_nlp 0
        (VectorPar (mk_vec [1, 2])) (VectorPar (mk_vec [0, 0])) (VectorPar (mk_vec [0, 0]))
        (VectorPar (mk_vec [3])) (VectorPar (mk_vec [5]))
        (VectorPar (mk_vec [1])) (VectorPar (mk_vec [0])) 7 ex_env
          = (Inr (), ex_nlp, \<lparr>user = 1, trace = [SolutionCallback a]\<rparr>)
      \<and> sol_n a = 2 \<and> sol_x a = [1, 2] \<and> sol_z_L a = [0, 0] \<and> sol_z_U a = [0, 0]
      \<and> sol_m a = 2 \<and> sol_obj_value a = 7"
    by (simp add: nv nc ex_env_def ex_interface_base_def mk_vec_def)
  then show ?thesis
    using sz cd by blast
qed

subsection \<open>Copying the internal point to the user's array\<close>

lemma unat_times_sizeof_double:
  fixes w :: "64 word"
  assumes "unat w < 2 ^ 61"
  shows "unat (w * sizeof_double) div 8 = unat w"
proof -
  have "unat w * 8 < 2 ^ 64"
    using assms by simp
  then have "unat (w * sizeof_double) = unat w * 8"
    by (simp add: sizeof_double_def unat_word_ariths)
  then show ?thesis
    by simp
qed

text \<open>
  Claim C10. \<^verbatim>\<open>user_x\<close> passes the local data of the internal point to \<^verbatim>\<open>applyTox\<close>
  with \<^verbatim>\<open>new_x = true\<close>, and then copies the first \<open>k\<close> elements of the result into
  the caller's buffer, where \<open>k\<close> is \<^verbatim>\<open>n_post_local()\<close> of the chain after that call
  (and not the local size of the internal vector); the rest of the buffer stays.
  This holds when both arrays have at least \<open>k\<close> elements and \<open>k\<close> times the size of
  a \<^verbatim>\<open>double\<close> fits \<^verbatim>\<open>size_t\<close>.
\<close>

theorem user_x_copies_n_post_local:
  assumes "applyTox tr (nlp_transformations nlp) (vec_local_data hiop_x) True = (user_xa, t')"
    and "k = unat (n_post_local tr t')"
    and "k < 2 ^ 61"
    and "k \<le> length user_xa"
    and "k \<le> length buf"
  shows "user_x tr nlp hiop_x buf
         = (Inr (take k user_xa @ drop k buf), nlp\<lparr>nlp_transformations := t'\<rparr>)"
  using assms
  by (simp add: user_x_def memcpy_double_def Let_def unat_times_sizeof_double)

theorem user_x_copies_n_post_local_witness:
  "applyTox ex_transformations (nlp_transformations ex_nlp) (vec_local_data (mk_vec [1 / 2, 4])) True
     = ([1 / 2, 4, 2], 1)
   \<and> (3::nat) = unat (n_post_local ex_transformations 1)
   \<and> (3::nat) < 2 ^ 61
   \<and> 3 \<le> length [1 / 2, 4, 2 :: double]
   \<and> 3 \<le> length [0, 0, 0, 9 :: double]
   \<and> vec_local_size (mk_vec [1 / 2, 4]) = 2
   \<and> user_x ex_transformations ex_nlp (mk_vec [1 / 2, 4]) [0, 0, 0, 9]
       = (Inr [1 / 2, 4, 2, 9], ex_nlp\<lparr>nlp_transformations := 1\<rparr>)"
proof -
  have ap: "applyTox ex_transformations (nlp_transformations ex_nlp)
              (vec_local_data (mk_vec [1 / 2, 4])) True = ([1 / 2, 4, 2], 1)"
    by (simp add: ex_transformations_def ex_nlp_def mk_vec_def)
  have k: "(3::nat) = unat (n_post_local ex_transformations 1)"
    by (simp add: ex_transformations_def)
  have "user_x ex_transformations ex_nlp (mk_vec [1 / 2, 4]) [0, 0, 0, 9]
       = (Inr (take 3 [1 / 2, 4, 2] @ drop 3 [0, 0, 0, 9]), ex_nlp\<lparr>nlp_transformations := 1\<rparr>)"
    by (rule user_x_copies_n_post_local [OF ap k]) simp_all
  then show ?thesis
    using ap k by (simp add: mk_vec_def)
qed

subsection \<open>The equality and inequality mappings after finalization\<close>

lemma filter_partition_upt:
  "distinct (filter P [0..<k] @ filter (\<lambda>i. \<not> P i) [0..<k])
   \<and> set (filter P [0..<k] @ filter (\<lambda>i. \<not> P i) [0..<k]) = {0..<k}
   \<and> length (filter P [0..<k]) + length (filter (\<lambda>i. \<not> P i) [0..<k]) = k"
proof (intro conjI)
  show "distinct (filter P [0..<k] @ filter (\<lambda>i. \<not> P i) [0..<k])"
    by auto
  show "set (filter P [0..<k] @ filter (\<lambda>i. \<not> P i) [0..<k]) = {0..<k}"
    by auto
  show "length (filter P [0..<k]) + length (filter (\<lambda>i. \<not> P i) [0..<k]) = k"
    using sum_length_filter_compl [of P "[0..<k]"] by simp
qed

text \<open>
  Claim C5. After a successful finalization, \<open>cons_eq_mapping\<close> has \<open>n_cons_eq\<close>
  entries, \<open>cons_ineq_mapping\<close> has \<open>n_cons_ineq\<close> entries, the two counts add up to
  \<open>n_cons\<close>, and the two arrays together hold every original constraint index below
  \<open>n_cons\<close> exactly once: no index is repeated, within or across the arrays, and
  none outside the range occurs.
\<close>

theorem finalizeInitialization_mappings_partition:
  assumes "finalizeInitialization nvars ncons xlow xupp clow cupp = Some st"
  shows "length (fin_cons_eq_mapping st) = fin_n_cons_eq st
       \<and> length (fin_cons_ineq_mapping st) = fin_n_cons_ineq st
       \<and> fin_n_cons_eq st + fin_n_cons_ineq st = fin_n_cons st
       \<and> int (fin_n_cons st) = ncons
       \<and> distinct (fin_cons_eq_mapping st @ fin_cons_ineq_mapping st)
       \<and> set (fin_cons_eq_mapping st @ fin_cons_ineq_mapping st) = {0..<fin_n_cons st}"
proof -
  let ?P = "\<lambda>i. clow i = cupp i"
  let ?k = "nat ncons"
  from assms have nonneg: "0 \<le> ncons"
    by (simp add: finalizeInitialization_def split: if_splits)
  from assms have st: "st = \<lparr>fin_n_cons = ?k,
      fin_n_cons_eq = length (filter ?P [0..<?k]),
      fin_n_cons_ineq = length (filter (\<lambda>i. \<not> ?P i) [0..<?k]),
      fin_cons_eq_mapping = filter ?P [0..<?k],
      fin_cons_ineq_mapping = filter (\<lambda>i. \<not> ?P i) [0..<?k]\<rparr>"
    by (simp add: finalizeInitialization_def Let_def split: if_splits)
  show ?thesis
    using filter_partition_upt [of ?P ?k] nonneg by (simp add: st)
qed

text \<open>
  Scenario B of the specification: the four constraints \<open>(-\<infinity>, 5]\<close>, \<open>[3, 3]\<close>,
  \<open>[0, 10]\<close>, \<open>[1, 1]\<close> (with \<open>-10\<^sup>2\<^sup>0\<close> for \<open>-\<infinity>\<close>) and the three variables of
  scenario A.
\<close>

theorem finalizeInitialization_mappings_partition_witness:
  "finalizeInitialization 3 4 (\<lambda>i. [0, - (10 ^ 20), 2] ! i) (\<lambda>i. [1, 5, 2] ! i)
       (\<lambda>i. [- (10 ^ 20), 3, 0, 1] ! i) (\<lambda>i. [5, 3, 10, 1] ! i)
     = Some \<lparr>fin_n_cons = 4, fin_n_cons_eq = 2, fin_n_cons_ineq = 2,
             fin_cons_eq_mapping = [1, 3], fin_cons_ineq_mapping = [0, 2]\<rparr>
   \<and> distinct ([1, 3] @ [0, 2 :: nat])
   \<and> set ([1, 3] @ [0, 2 :: nat]) = {0..<4}"
proof -
  have fin: "finalizeInitialization 3 4 (\<lambda>i. [0, - (10 ^ 20), 2] ! i) (\<lambda>i. [1, 5, 2] ! i)
       (\<lambda>i. [- (10 ^ 20), 3, 0, 1] ! i) (\<lambda>i. [5, 3, 10, 1] ! i)
     = Some \<lparr>fin_n_cons = 4, fin_n_cons_eq = 2, fin_n_cons_ineq = 2,
             fin_cons_eq_mapping = [1, 3], fin_cons_ineq_mapping = [0, 2]\<rparr>"
    by (simp add: finalizeInitialization_def Let_def upt_conv_Cons)
  show ?thesis
    using fin finalizeInitialization_mappings_partition [OF fin] by simp
qed


end
